theory Spec2Isabelle
  imports Complex_Main "HOL-Library.AList" "HOL-Library.Sublist"
begin

section \<open>Smart home energy model: data\<close>

text \<open>
  The development embeds the energy core of \<^verbatim>\<open>src/main.py\<close>: the per-device power
  model (\<^verbatim>\<open>IoTSensor.calculate_power_consumption\<close>), the distance model and the MQTT
  channel with its batch scheduler (\<^verbatim>\<open>CommunicationProtocol\<close>, \<^verbatim>\<open>MQTTProtocol\<close>),
  and the optimizer (\<^verbatim>\<open>EnergyOptimizer\<close>).

  Conventions of the embedding:
  \<^item> a Python \<^verbatim>\<open>float\<close> is a \<^typ>\<open>real\<close>: the formulas are those of the source, rounding
    and NaN are not modelled;
  \<^item> a Python \<^verbatim>\<open>int\<close> is an \<^typ>\<open>int\<close>;
  \<^item> an optional string argument (\<^verbatim>\<open>sensor_location: str = None\<close>) is a
    \<^typ>\<open>string option\<close>;
  \<^item> \<^verbatim>\<open>time.time()\<close>, \<^verbatim>\<open>datetime.now()\<close> and \<^verbatim>\<open>random.random()\<close> are read from
    the environment, so the value read is an argument of the model;
  \<^item> an object mutated in place is a record that the model returns updated;
  \<^item> logging is left out.
\<close>

datatype py_error = InvalidOperationKind | IndexError

text \<open>The four coefficients of \<^verbatim>\<open>self.power\<close>, one entry of \<^verbatim>\<open>power_specs\<close> (mW).\<close>

record power_profile =
  sensing :: real
  communication :: real
  processing :: real
  sleep :: real

record IoTSensor =
  sensor_id :: string
  sensor_type :: string
  location :: string
  is_active :: bool
  duty_cycle :: real
  power :: power_profile

definition power_specs :: "string \<Rightarrow> power_profile option" where
  "power_specs ty =
     (if ty = ''DHT22'' then
        Some \<lparr>sensing = 1.5, communication = 15.0, processing = 0.8, sleep = 0.05\<rparr>
      else if ty = ''LDR'' then
        Some \<lparr>sensing = 0.5, communication = 12.0, processing = 0.3, sleep = 0.02\<rparr>
      else if ty = ''AirQuality'' then
        Some \<lparr>sensing = 2.5, communication = 20.0, processing = 1.2, sleep = 0.1\<rparr>
      else if ty = ''Noise'' then
        Some \<lparr>sensing = 1.8, communication = 16.0, processing = 0.9, sleep = 0.06\<rparr>
      else if ty = ''PIR'' then
        Some \<lparr>sensing = 0.8, communication = 10.0, processing = 0.5, sleep = 0.03\<rparr>
      else None)"

text \<open>\<^verbatim>\<open>IoTSensor.__init__\<close>: an unknown sensor type gets the DHT22 profile.\<close>

definition IoTSensor_init :: "string \<Rightarrow> string \<Rightarrow> string \<Rightarrow> IoTSensor" where
  "IoTSensor_init sid ty loc =
     \<lparr>sensor_id = sid, sensor_type = ty, location = loc, is_active = True,
      duty_cycle = 1.0,
      power = (case power_specs ty of
                 Some p \<Rightarrow> p
               | None \<Rightarrow> \<lparr>sensing = 1.5, communication = 15.0, processing = 0.8,
                           sleep = 0.05\<rparr>)\<rparr>"

section \<open>Power model\<close>

text \<open>
  \<^verbatim>\<open>IoTSensor.calculate_power_consumption(self, operation_time, operation_type)\<close>.
  The source has no \<^verbatim>\<open>raise\<close>: each branch of the chain returns a float, the last one
  \<^verbatim>\<open>0.0\<close>. The result type keeps room for an error so that the two outcomes can be
  told apart.
\<close>

definition calculate_power_consumption ::
    "IoTSensor \<Rightarrow> real \<Rightarrow> string \<Rightarrow> py_error + real" where
  "calculate_power_consumption self operation_time operation_type =
     (if operation_type = ''sensing'' then
        Inr (sensing (power self) * operation_time * duty_cycle self)
      else if operation_type = ''communication'' then
        Inr (communication (power self) * operation_time)
      else if operation_type = ''processing'' then
        Inr (processing (power self) * operation_time)
      else if operation_type = ''sleep'' then
        Inr (sleep (power self) * operation_time * (1 - duty_cycle self))
      else Inr 0.0)"

section \<open>Distance model\<close>

text \<open>\<^verbatim>\<open>CommunicationProtocol.gateway_position\<close> and \<^verbatim>\<open>sensor_locations\<close> (metres).\<close>

definition gateway_position :: "real \<times> real" where
  "gateway_position = (0, 0)"

definition sensor_locations :: "string \<Rightarrow> (real \<times> real) option" where
  "sensor_locations =
     map_of [(''Living Room'', (8, 12)), (''Master Bedroom'', (15, 20)),
             (''Kitchen'', (6, 8)), (''Guest Bedroom'', (20, 18)),
             (''Bathroom'', (12, 6)), (''Home Office'', (25, 15)),
             (''Front Door'', (3, 5)), (''Back Yard'', (10, 25))]"

text \<open>\<^verbatim>\<open>CommunicationProtocol.calculate_distance\<close>: 50 m for a location not in the table.\<close>

definition calculate_distance :: "string \<Rightarrow> real" where
  "calculate_distance sensor_location =
     (case sensor_locations sensor_location of
        None \<Rightarrow> 50.0
      | Some sensor_pos \<Rightarrow>
          sqrt ((fst sensor_pos - fst gateway_position)\<^sup>2
                + (snd sensor_pos - snd gateway_position)\<^sup>2))"

text \<open>
  \<^verbatim>\<open>CommunicationProtocol.calculate_transmission_power\<close>. In the second branch
  \<open>distance / d_ref > 1\<close>, so \<^verbatim>\<open>math.log10\<close> is applied inside its domain;
  \<^verbatim>\<open>10 ** x\<close> on a float exponent is \<open>10 powr x\<close>. The constant \<^verbatim>\<open>K\<close> of the source
  is assigned and never read.
\<close>

definition calculate_transmission_power :: "real \<Rightarrow> real" where
  "calculate_transmission_power distance =
     (let P_min = 50.0; d_ref = 10.0; n = 3.0 in
      if distance \<le> d_ref then P_min
      else
        (let power_ratio = 10 powr ((n * log 10 (distance / d_ref)) / 10);
             P_tx = P_min * power_ratio
         in min P_tx 200.0))"

text \<open>
  Python's truth value of the optional location: \<^verbatim>\<open>None\<close> and the empty string are
  false.
\<close>

definition truthy :: "string option \<Rightarrow> bool" where
  "truthy sensor_location = (case sensor_location of None \<Rightarrow> False | Some l \<Rightarrow> l \<noteq> [])"

text \<open>
  \<^verbatim>\<open>CommunicationProtocol.calculate_comm_power\<close>; \<open>message_size\<close> is an argument that
  the source does not read.
\<close>

definition calculate_comm_power :: "int \<Rightarrow> real \<Rightarrow> string option \<Rightarrow> real" where
  "calculate_comm_power message_size transmission_time sensor_location =
     (let P_tx = (case sensor_location of
                    None \<Rightarrow> 100.0
                  | Some l \<Rightarrow>
                      if l \<noteq> [] then calculate_transmission_power (calculate_distance l)
                      else 100.0);
          P_rx = 50.0;
          P_idle = 5.0;
          t_tx = transmission_time;
          t_rx = transmission_time * 0.1;
          t_idle = 0.1
      in P_tx * t_tx + P_rx * t_rx + P_idle * t_idle)"

section \<open>MQTT channel and batch scheduler\<close>

text \<open>
  One entry of \<^verbatim>\<open>message_batch\<close>: the dict with keys \<^verbatim>\<open>topic\<close>, \<^verbatim>\<open>payload\<close>, \<^verbatim>\<open>size\<close>,
  \<^verbatim>\<open>time\<close> and \<^verbatim>\<open>location\<close>. The payload dict is kept as its serialisation
  \<^verbatim>\<open>json.dumps(payload).encode()\<close>, of which the channel reads the length only.
\<close>

record message =
  msg_topic :: string
  msg_payload :: string
  msg_size :: int
  msg_time :: real
  msg_location :: "string option"

record MQTTProtocol =
  protocol_name :: string
  message_count :: int
  total_bytes_sent :: int
  retry_count :: int
  broker_connected :: bool
  qos_level :: int
  message_batch :: "message list"
  batch_size_limit :: int
  batch_timeout :: real
  last_batch_time :: real
  batch_mode_enabled :: bool

text \<open>\<^verbatim>\<open>MQTTProtocol.__init__\<close>, at clock reading \<open>now\<close>.\<close>

definition MQTTProtocol_init :: "real \<Rightarrow> MQTTProtocol" where
  "MQTTProtocol_init now =
     \<lparr>protocol_name = ''MQTT'', message_count = 0, total_bytes_sent = 0, retry_count = 0,
      broker_connected = True, qos_level = 1, message_batch = [], batch_size_limit = 5,
      batch_timeout = 3.0, last_batch_time = now, batch_mode_enabled = True\<rparr>"

text \<open>
  \<^verbatim>\<open>MQTTProtocol._batch_message\<close>, in the order of the source: the append
  (\<open>batch_append\<close>), the flush test (\<open>batch_due\<close>), and the body of the flush
  (\<open>batch_flush\<close>), whose power before the efficiency factor is \<open>batch_power_raw\<close>.
\<close>

definition batch_append ::
    "MQTTProtocol \<Rightarrow> string \<Rightarrow> string \<Rightarrow> int \<Rightarrow> real \<Rightarrow> string option \<Rightarrow> MQTTProtocol" where
  "batch_append self topic payload message_size transmission_time sensor_location =
     self\<lparr>message_batch := message_batch self @
       [\<lparr>msg_topic = topic, msg_payload = payload, msg_size = message_size,
         msg_time = transmission_time, msg_location = sensor_location\<rparr>]\<rparr>"

definition batch_due :: "MQTTProtocol \<Rightarrow> real \<Rightarrow> bool" where
  "batch_due self current_time =
     (let batch_full = (int (length (message_batch self)) \<ge> batch_size_limit self);
          timeout_reached = ((current_time - last_batch_time self) > batch_timeout self)
      in batch_full \<or> timeout_reached)"

text \<open>\<^verbatim>\<open>set(msg['location'] for msg in self.message_batch if msg['location'])\<close>.\<close>

definition total_locations :: "message list \<Rightarrow> string set" where
  "total_locations batch =
     set (List.map_filter
            (\<lambda>msg. case msg_location msg of
                      None \<Rightarrow> None
                    | Some l \<Rightarrow> if l \<noteq> [] then Some l else None)
            batch)"

definition batch_power_raw :: "message list \<Rightarrow> string option \<Rightarrow> real" where
  "batch_power_raw batch sensor_location =
     (let total_size = sum_list (map msg_size batch);
          batch_transmission_time = real_of_int total_size / 1200;
          locs = total_locations batch
      in if truthy sensor_location \<and> card locs > 0 then
           (let avg_distance = (\<Sum>loc\<in>locs. calculate_distance loc) / real (card locs)
            in calculate_transmission_power avg_distance * batch_transmission_time)
         else calculate_comm_power total_size batch_transmission_time sensor_location)"

definition batch_flush ::
    "MQTTProtocol \<Rightarrow> string option \<Rightarrow> real \<Rightarrow> real \<Rightarrow> real \<Rightarrow> (bool \<times> real) \<times> MQTTProtocol" where
  "batch_flush self sensor_location queuing_power current_time draw =
     (let total_size = sum_list (map msg_size (message_batch self));
          batch_power = batch_power_raw (message_batch self) sensor_location;
          efficiency_factor = max 0.5 (1.0 - (real (length (message_batch self)) * 0.1));
          batch_power = batch_power * efficiency_factor;
          success = (draw < 0.93);
          counted = (if success then
                       self\<lparr>message_count :=
                               message_count self + int (length (message_batch self)),
                            total_bytes_sent := total_bytes_sent self + total_size\<rparr>
                     else self\<lparr>retry_count := retry_count self + 1\<rparr>);
          batch_power = (if success then batch_power else batch_power * 1.5);
          batch_size = int (length (message_batch self));
          cleared = counted\<lparr>message_batch := [], last_batch_time := current_time\<rparr>
      in ((success, queuing_power + (batch_power / real_of_int (max batch_size 1))),
          cleared))"

definition batch_message ::
    "MQTTProtocol \<Rightarrow> string \<Rightarrow> string \<Rightarrow> int \<Rightarrow> real \<Rightarrow> string option \<Rightarrow> real \<Rightarrow> real
       \<Rightarrow> (bool \<times> real) \<times> MQTTProtocol" where
  "batch_message self topic payload message_size transmission_time sensor_location
       current_time draw =
     (let appended = batch_append self topic payload message_size transmission_time
                       sensor_location;
          queuing_power = calculate_comm_power message_size (transmission_time * 0.2)
                            sensor_location
      in if batch_due appended current_time then
           batch_flush appended sensor_location queuing_power current_time draw
         else ((True, queuing_power), appended))"

text \<open>
  \<^verbatim>\<open>MQTTProtocol._publish_single_message\<close>; the delay drawn by \<^verbatim>\<open>random.uniform\<close> is
  never read, \<open>draw\<close> is the value of \<^verbatim>\<open>random.random()\<close>.
\<close>

definition publish_single_message ::
    "MQTTProtocol \<Rightarrow> string \<Rightarrow> string \<Rightarrow> int \<Rightarrow> real \<Rightarrow> string option \<Rightarrow> real
       \<Rightarrow> (bool \<times> real) \<times> MQTTProtocol" where
  "publish_single_message self topic payload message_size transmission_time sensor_location
       draw =
     (if draw < 0.95 then
        ((True, calculate_comm_power message_size transmission_time sensor_location),
         self\<lparr>message_count := message_count self + 1,
              total_bytes_sent := total_bytes_sent self + message_size\<rparr>)
      else
        ((False, calculate_comm_power message_size transmission_time sensor_location * 2),
         self\<lparr>retry_count := retry_count self + 1\<rparr>))"

text \<open>
  \<^verbatim>\<open>MQTTProtocol.publish_message\<close>; \<open>current_time\<close> and \<open>draw\<close> are what the call reads
  from the clock and from the random generator.
\<close>

definition publish_message ::
    "MQTTProtocol \<Rightarrow> string \<Rightarrow> string \<Rightarrow> int \<Rightarrow> string option \<Rightarrow> real \<Rightarrow> real
       \<Rightarrow> (bool \<times> real) \<times> MQTTProtocol" where
  "publish_message self topic payload qos sensor_location current_time draw =
     (let message_size = int (length payload);
          transmission_time = real_of_int message_size / 1000
      in if batch_mode_enabled self then
           batch_message self topic payload message_size transmission_time sensor_location
             current_time draw
         else
           publish_single_message self topic payload message_size transmission_time
             sensor_location draw)"

section \<open>Energy optimizer\<close>

text \<open>The dataclass \<^verbatim>\<open>SensorReading\<close>; the timestamp is a clock reading.\<close>

record SensorReading =
  timestamp :: real
  sensor_id :: string
  "value" :: real
  unit :: string
  power_consumed :: real

record EnergyOptimizer =
  optimization_enabled :: bool
  aggregation_window :: int
  data_buffer :: "SensorReading list"
  duty_cycle :: real
  aggregation_factor :: real
  adaptive_duty_cycling :: bool
  inactivity_counter :: int
  progressive_sleep :: bool
  activity_threshold :: real
  last_sensor_values :: "string \<rightharpoonup> real"
  sleep_levels :: "real list"
  current_sleep_level :: int
  sleep_level_timeout :: int

text \<open>\<^verbatim>\<open>EnergyOptimizer.__init__\<close>.\<close>

definition EnergyOptimizer_init :: EnergyOptimizer where
  "EnergyOptimizer_init =
     \<lparr>optimization_enabled = False, aggregation_window = 60, data_buffer = [],
      duty_cycle = 0.8, aggregation_factor = 0.7, adaptive_duty_cycling = False,
      inactivity_counter = 0, progressive_sleep = False, activity_threshold = 5.0,
      last_sensor_values = Map.empty, sleep_levels = [0.8, 0.6, 0.4, 0.2],
      current_sleep_level = 0, sleep_level_timeout = 5\<rparr>"

text \<open>\<^verbatim>\<open>EnergyOptimizer.enable_adaptive_duty_cycling\<close>.\<close>

definition enable_adaptive_duty_cycling :: "EnergyOptimizer \<Rightarrow> bool \<Rightarrow> EnergyOptimizer" where
  "enable_adaptive_duty_cycling self enabled =
     (let self = self\<lparr>adaptive_duty_cycling := enabled, progressive_sleep := enabled\<rparr>
      in if enabled then self\<lparr>inactivity_counter := 0, current_sleep_level := 0\<rparr> else self)"

subsection \<open>Progressive sleep\<close>

text \<open>
  Python's \<^verbatim>\<open>xs[i]\<close>: a negative index counts from the end, an index out of range
  raises \<^verbatim>\<open>IndexError\<close>.
\<close>

definition py_index :: "'a list \<Rightarrow> int \<Rightarrow> py_error + 'a" where
  "py_index xs i =
     (if 0 \<le> i \<and> i < int (length xs) then Inr (xs ! nat i)
      else if i < 0 \<and> - int (length xs) \<le> i then Inr (xs ! nat (int (length xs) + i))
      else Inl IndexError)"

text \<open>Python's \<^verbatim>\<open>sub in s\<close> on strings: \<open>sub\<close> occurs in \<open>s\<close> as a contiguous run.\<close>

fun str_contains :: "string \<Rightarrow> string \<Rightarrow> bool" where
  "str_contains sub [] = (sub = [])"
| "str_contains sub (c # cs) = (prefix sub (c # cs) \<or> str_contains sub cs)"

text \<open>The percent change of \<^verbatim>\<open>update_sleep_mode\<close>, with its two cases for a zero previous value.\<close>

definition percent_change :: "real \<Rightarrow> real \<Rightarrow> real" where
  "percent_change previous_value current_value =
     (if previous_value \<noteq> 0 then
        \<bar>(current_value - previous_value) / previous_value\<bar> * 100
      else if current_value \<noteq> 0 then 100.0
      else 0.0)"

text \<open>
  One round of the loop \<^verbatim>\<open>for reading in readings\<close> of \<^verbatim>\<open>update_sleep_mode\<close>, on the
  pair of \<^verbatim>\<open>activity_detected\<close> and \<^verbatim>\<open>self.last_sensor_values\<close>: a motion reading is
  tested and skipped (\<^verbatim>\<open>continue\<close>), any other reading is compared with the stored
  value, if there is one, and then stored.
\<close>

definition check_reading ::
    "real \<Rightarrow> bool \<times> (string \<rightharpoonup> real) \<Rightarrow> SensorReading \<Rightarrow> bool \<times> (string \<rightharpoonup> real)" where
  "check_reading threshold acc reading =
     (let activity_detected = fst acc;
          last_values = snd acc;
          sid = SensorReading.sensor_id reading;
          current_value = value reading
      in if str_contains ''motion'' sid then
           (if current_value > 0 then (True, last_values)
            else (activity_detected, last_values))
         else
           ((case last_values sid of
               None \<Rightarrow> activity_detected
             | Some previous_value \<Rightarrow>
                 if percent_change previous_value current_value > threshold then True
                 else activity_detected),
            last_values(sid \<mapsto> current_value)))"

definition check_readings ::
    "real \<Rightarrow> (string \<rightharpoonup> real) \<Rightarrow> SensorReading list \<Rightarrow> bool \<times> (string \<rightharpoonup> real)" where
  "check_readings threshold last_values readings =
     foldl (check_reading threshold) (False, last_values) readings"

text \<open>
  The loop \<^verbatim>\<open>for sensor in sensors\<close>: every sensor gets the new duty cycle, and
  \<open>(old - new) * sensing * 5\<close> is accumulated, subtracted (\<open>sign = -1\<close>) on the way
  back to level 0 and added (\<open>sign = 1\<close>) on the way down. The sensors are values here:
  a list that holds one object twice is not modelled.
\<close>

definition apply_duty_cycle :: "real \<Rightarrow> real \<Rightarrow> IoTSensor list \<Rightarrow> real \<times> IoTSensor list" where
  "apply_duty_cycle sign new_duty_cycle sensors =
     (foldl (\<lambda>power_saved sensor.
               power_saved + sign * ((IoTSensor.duty_cycle sensor - new_duty_cycle)
                                       * sensing (power sensor) * 5))
            0.0 sensors,
      map (\<lambda>sensor. sensor\<lparr>IoTSensor.duty_cycle := new_duty_cycle\<rparr>) sensors)"

text \<open>
  \<^verbatim>\<open>EnergyOptimizer.update_sleep_mode\<close>: the result is the returned \<^verbatim>\<open>power_saved\<close>,
  the optimizer and the sensors after the call, or the \<^verbatim>\<open>IndexError\<close> of
  \<^verbatim>\<open>self.sleep_levels[self.current_sleep_level]\<close>.
\<close>

definition update_sleep_mode ::
    "EnergyOptimizer \<Rightarrow> IoTSensor list \<Rightarrow> SensorReading list
       \<Rightarrow> py_error + (real \<times> EnergyOptimizer \<times> IoTSensor list)" where
  "update_sleep_mode self sensors readings =
     (if \<not> progressive_sleep self then Inr (0.0, self, sensors)
      else
        (let checked = check_readings (activity_threshold self) (last_sensor_values self)
                         readings;
             activity_detected = fst checked;
             self = self\<lparr>last_sensor_values := snd checked\<rparr>
         in if activity_detected then
              (let self = self\<lparr>inactivity_counter := 0\<rparr>
               in if current_sleep_level self > 0 then
                    (let self = self\<lparr>current_sleep_level := 0\<rparr>
                     in case py_index (sleep_levels self) (current_sleep_level self) of
                          Inl e \<Rightarrow> Inl e
                        | Inr new_duty_cycle \<Rightarrow>
                            (let applied = apply_duty_cycle (- 1) new_duty_cycle sensors
                             in Inr (fst applied, self, snd applied)))
                  else Inr (0.0, self, sensors))
            else
              (let self = self\<lparr>inactivity_counter := inactivity_counter self + 1\<rparr>
               in if inactivity_counter self \<ge> sleep_level_timeout self then
                    (if current_sleep_level self < int (length (sleep_levels self)) - 1 then
                       (let self = self\<lparr>current_sleep_level := current_sleep_level self + 1\<rparr>
                        in case py_index (sleep_levels self) (current_sleep_level self) of
                             Inl e \<Rightarrow> Inl e
                           | Inr new_duty_cycle \<Rightarrow>
                               (let applied = apply_duty_cycle 1 new_duty_cycle sensors
                                in Inr (fst applied, self\<lparr>inactivity_counter := 0\<rparr>,
                                        snd applied)))
                     else Inr (0.0, self\<lparr>inactivity_counter := 0\<rparr>, sensors))
                  else Inr (0.0, self, sensors))))"

text \<open>
  Consecutive cycles: \<open>update_sleep_mode\<close> called once per list of readings, on the
  optimizer and the sensors that the call before left.
\<close>

fun run_cycles ::
    "EnergyOptimizer \<Rightarrow> IoTSensor list \<Rightarrow> SensorReading list list
       \<Rightarrow> py_error + (EnergyOptimizer \<times> IoTSensor list)" where
  "run_cycles self sensors [] = Inr (self, sensors)"
| "run_cycles self sensors (readings # rest) =
     (case update_sleep_mode self sensors readings of
        Inl e \<Rightarrow> Inl e
      | Inr (power_saved, self', sensors') \<Rightarrow> run_cycles self' sensors' rest)"

text \<open>
  No activity is detected in any of the consecutive cycles. Nothing is asked of the
  cycles after a call that raises: they do not take place.
\<close>

fun quiet_cycles :: "EnergyOptimizer \<Rightarrow> IoTSensor list \<Rightarrow> SensorReading list list \<Rightarrow> bool" where
  "quiet_cycles self sensors [] = True"
| "quiet_cycles self sensors (readings # rest) =
     (\<not> fst (check_readings (activity_threshold self) (last_sensor_values self) readings)
      \<and> (case update_sleep_mode self sensors readings of
            Inl e \<Rightarrow> True
          | Inr (power_saved, self', sensors') \<Rightarrow> quiet_cycles self' sensors' rest))"

subsection \<open>Aggregation\<close>

text \<open>
  Python's \<^verbatim>\<open>s.split(c)\<close> for a one-character separator: the list of the pieces
  between the separators, never empty.
\<close>

fun split_chr :: "char \<Rightarrow> string \<Rightarrow> string list" where
  "split_chr c [] = [[]]"
| "split_chr c (x # xs) =
     (if x = c then [] # split_chr c xs
      else (case split_chr c xs of
              [] \<Rightarrow> [[x]]
            | w # ws \<Rightarrow> (x # w) # ws))"

text \<open>\<^verbatim>\<open>reading.sensor_id.split('_')[-1]\<close>.\<close>

definition sensor_type_of :: "string \<Rightarrow> string" where
  "sensor_type_of sid = last (split_chr CHR ''_'' sid)"

text \<open>
  The dict \<^verbatim>\<open>grouped_readings\<close> keeps its keys in the order of their first insertion:
  an association list, where \<open>AList.update\<close> replaces the entry of a key in place and
  puts a new key last.
\<close>

definition group_reading ::
    "(string \<times> SensorReading list) list \<Rightarrow> SensorReading
       \<Rightarrow> (string \<times> SensorReading list) list" where
  "group_reading grouped_readings reading =
     (let sensor_type = sensor_type_of (SensorReading.sensor_id reading);
          readings_list = (case map_of grouped_readings sensor_type of
                             None \<Rightarrow> []
                           | Some l \<Rightarrow> l)
      in AList.update sensor_type (readings_list @ [reading]) grouped_readings)"

text \<open>The body of the second loop; \<open>now\<close> is the value of \<^verbatim>\<open>datetime.now()\<close>.\<close>

definition aggregate_group ::
    "EnergyOptimizer \<Rightarrow> real \<Rightarrow> string \<times> SensorReading list \<Rightarrow> SensorReading list" where
  "aggregate_group self now entry =
     (let sensor_type = fst entry;
          readings_list = snd entry
      in if length readings_list > 1 then
           (let avg_value = sum_list (map value readings_list) / real (length readings_list);
                total_power = sum_list (map power_consumed readings_list)
            in [\<lparr>timestamp = now,
                  sensor_id = ''aggregated_'' @ sensor_type,
                  value = avg_value,
                  unit = unit (hd readings_list),
                  power_consumed = total_power * aggregation_factor self\<rparr>])
         else readings_list)"

text \<open>\<^verbatim>\<open>EnergyOptimizer.aggregate_data\<close>.\<close>

definition aggregate_data :: "EnergyOptimizer \<Rightarrow> real \<Rightarrow> SensorReading list \<Rightarrow> SensorReading list" where
  "aggregate_data self now readings =
     (if \<not> optimization_enabled self then readings
      else
        (let grouped_readings = foldl group_reading [] readings
         in concat (map (aggregate_group self now) grouped_readings)))"

section \<open>Notions used to state the properties\<close>

text \<open>
  The batch power before the efficiency factor as the specification words it: the mean
  of the transmission powers of the distinct locations of the batch, times the batch
  transmission time, whenever the batch carries a location; the single-message formula
  on the total size otherwise. It is compared with \<open>batch_power_raw\<close> below.
\<close>

definition batch_power_as_specified :: "message list \<Rightarrow> real" where
  "batch_power_as_specified batch =
     (let total_size = sum_list (map msg_size batch);
          batch_transmission_time = real_of_int total_size / 1200;
          locs = total_locations batch
      in if locs \<noteq> {} then
           ((\<Sum>loc\<in>locs. calculate_transmission_power (calculate_distance loc))
              / real (card locs)) * batch_transmission_time
         else calculate_comm_power total_size batch_transmission_time None)"

text \<open>
  A sequence of \<^verbatim>\<open>publish_message\<close> calls on one channel: each call with its arguments,
  the clock reading and the random draw it meets.
\<close>

record publish_call =
  call_topic :: string
  call_payload :: string
  call_qos :: int
  call_location :: "string option"
  call_time :: real
  call_draw :: real

definition publish_call :: "MQTTProtocol \<Rightarrow> publish_call \<Rightarrow> (bool \<times> real) \<times> MQTTProtocol" where
  "publish_call self c =
     publish_message self (call_topic c) (call_payload c) (call_qos c) (call_location c)
       (call_time c) (call_draw c)"

definition publish_all :: "MQTTProtocol \<Rightarrow> publish_call list \<Rightarrow> MQTTProtocol" where
  "publish_all self calls = foldl (\<lambda>s c. snd (publish_call s c)) self calls"

text \<open>
  What a run of publish calls in batch mode preserves: the batch parameters of the
  start, and a pending batch shorter than the size limit.
\<close>

definition batch_inv :: "MQTTProtocol \<Rightarrow> MQTTProtocol \<Rightarrow> bool" where
  "batch_inv s0 s =
     (batch_mode_enabled s \<and> batch_size_limit s = batch_size_limit s0
      \<and> batch_timeout s = batch_timeout s0
      \<and> int (length (message_batch s)) < batch_size_limit s)"

text \<open>
  Two pending messages of 2 bytes (the payload \<^verbatim>\<open>{}\<close>), from the front door and from the
  bathroom.
\<close>

definition two_rooms :: "message list" where
  "two_rooms =
     [\<lparr>msg_topic = ''home/front'', msg_payload = ''{}'', msg_size = 2,
       msg_time = 0.002, msg_location = Some ''Front Door''\<rparr>,
      \<lparr>msg_topic = ''home/bath'', msg_payload = ''{}'', msg_size = 2,
       msg_time = 0.002, msg_location = Some ''Bathroom''\<rparr>]"

text \<open>A located message followed by one without location.\<close>

definition located_then_bare :: "message list" where
  "located_then_bare =
     [\<lparr>msg_topic = ''home/kitchen'', msg_payload = ''{}'', msg_size = 2,
       msg_time = 0.002, msg_location = Some ''Kitchen''\<rparr>,
      \<lparr>msg_topic = ''home/status'', msg_payload = ''{}'', msg_size = 2,
       msg_time = 0.002, msg_location = None\<rparr>]"

text \<open>A channel with a size limit of two that holds one message from the front door.\<close>

definition front_door_pending :: MQTTProtocol where
  "front_door_pending =
     (MQTTProtocol_init 0)\<lparr>batch_size_limit := 2,
        message_batch := [\<lparr>msg_topic = ''home/front'', msg_payload = ''{}'', msg_size = 2,
                           msg_time = 0.002, msg_location = Some ''Front Door''\<rparr>]\<rparr>"

text \<open>The group of a reading: the sensor type that \<open>aggregate_data\<close> reads off its id.\<close>

definition reading_type :: "SensorReading \<Rightarrow> string" where
  "reading_type reading = sensor_type_of (SensorReading.sensor_id reading)"

text \<open>
  What the first loop of \<open>aggregate_data\<close> maintains: after the readings seen so far,
  the dict has one entry per type met, with the readings of that type in their order.
\<close>

definition grouped_inv :: "SensorReading list \<Rightarrow> (string \<times> SensorReading list) list \<Rightarrow> bool" where
  "grouped_inv readings grouped =
     (distinct (map fst grouped)
      \<and> (\<forall>k. map_of grouped k
               = (if k \<in> reading_type ` set readings
                  then Some (filter (\<lambda>r. reading_type r = k) readings) else None)))"

text \<open>Sample readings: a temperature reading of a room, and a light reading.\<close>

definition temp_reading :: "string \<Rightarrow> real \<Rightarrow> real \<Rightarrow> SensorReading" where
  "temp_reading room v p =
     \<lparr>timestamp = 0, sensor_id = room @ ''_temp'', value = v, unit = ''C'',
      power_consumed = p\<rparr>"

definition light_reading :: SensorReading where
  "light_reading =
     \<lparr>timestamp = 0, sensor_id = ''light_01_light'', value = 300, unit = ''lux'',
      power_consumed = 0.025\<rparr>"

text \<open>
  A reading that counts as activity against the stored values: a motion reading with a
  positive value, or another reading whose percent change from its stored value exceeds
  the threshold.
\<close>

definition reading_active :: "real \<Rightarrow> (string \<rightharpoonup> real) \<Rightarrow> SensorReading \<Rightarrow> bool" where
  "reading_active threshold last_values reading =
     (if str_contains ''motion'' (SensorReading.sensor_id reading) then value reading > 0
      else (case last_values (SensorReading.sensor_id reading) of
              None \<Rightarrow> False
            | Some previous_value \<Rightarrow>
                percent_change previous_value (value reading) > threshold))"

text \<open>
  An optimizer in progressive sleep at level 2 that has stored 20 for the living room
  temperature, and two sensors of the living room.
\<close>

definition sleeping_optimizer :: EnergyOptimizer where
  "sleeping_optimizer =
     (enable_adaptive_duty_cycling EnergyOptimizer_init True)
       \<lparr>current_sleep_level := 2,
        last_sensor_values := [''living_room_01_temp'' \<mapsto> 20]\<rparr>"

definition two_sensors :: "IoTSensor list" where
  "two_sensors =
     [IoTSensor_init ''living_room_01'' ''DHT22'' ''Living Room'',
      IoTSensor_init ''light_01'' ''LDR'' ''Living Room'']"

text \<open>Five cycles of one temperature reading each, drifting by less than 5 percent.\<close>

definition calm_cycles :: "SensorReading list list" where
  "calm_cycles =
     [[temp_reading ''living_room_01'' 20 0.15],
      [temp_reading ''living_room_01'' 20.5 0.15],
      [temp_reading ''living_room_01'' 20.5 0.15],
      [temp_reading ''living_room_01'' 20.6 0.15],
      [temp_reading ''living_room_01'' 20.6 0.15]]"

section \<open>Properties of the power model\<close>

subsection \<open>Unknown operation kinds\<close>

text \<open>
  C1, as stated: an operation kind other than the four known ones makes the power model
  fail with \<open>InvalidOperationKind\<close>. The source does not: at the DHT22 device
  \<^verbatim>\<open>living_room_01\<close>, one second of the unknown kind \<^verbatim>\<open>standby\<close> returns the
  ordinary number \<open>0\<close>.
\<close>

theorem calculate_power_consumption_unknown_counterexample:
  "calculate_power_consumption (IoTSensor_init ''living_room_01'' ''DHT22'' ''Living Room'')
     1 ''standby'' = Inr 0
   \<and> calculate_power_consumption (IoTSensor_init ''living_room_01'' ''DHT22'' ''Living Room'')
     1 ''standby'' \<noteq> Inl InvalidOperationKind"
  by (simp add: calculate_power_consumption_def)

text \<open>
  C1, amended: for every device, every duration and every duty cycle, an operation kind
  other than \<^verbatim>\<open>sensing\<close>, \<^verbatim>\<open>communication\<close>, \<^verbatim>\<open>processing\<close> and \<^verbatim>\<open>sleep\<close> returns the
  ordinary value \<open>0.0\<close>; no error is signalled.
\<close>

theorem calculate_power_consumption_unknown:
  assumes "operation_type \<notin> {''sensing'', ''communication'', ''processing'', ''sleep''}"
  shows "calculate_power_consumption self operation_time operation_type = Inr 0"
  using assms by (simp add: calculate_power_consumption_def)

theorem calculate_power_consumption_unknown_witness:
  "''standby'' \<notin> {''sensing'', ''communication'', ''processing'', ''sleep''}
   \<and> calculate_power_consumption
       ((IoTSensor_init ''air_01'' ''AirQuality'' ''Kitchen'')\<lparr>IoTSensor.duty_cycle := 0.4\<rparr>)
       2.5 ''standby'' = Inr 0"
  using calculate_power_consumption_unknown
    [of "''standby''" "(IoTSensor_init ''air_01'' ''AirQuality'' ''Kitchen'')\<lparr>IoTSensor.duty_cycle := 0.4\<rparr>"
        "2.5"]
  by simp

subsection \<open>The four known operation kinds\<close>

text \<open>
  C2: for a profile with non-negative coefficients, a duration \<open>t \<ge> 0\<close> and a duty cycle
  in \<open>[0, 1]\<close>, the power model returns \<open>sensing * t * duty\<close> for \<^verbatim>\<open>sensing\<close>,
  \<open>communication * t\<close> for \<^verbatim>\<open>communication\<close> (whatever the duty cycle),
  \<open>processing * t\<close> for \<^verbatim>\<open>processing\<close> and \<open>sleep * t * (1 - duty)\<close> for \<^verbatim>\<open>sleep\<close>.
  The result is determined by the profile, the duty cycle, the duration and the kind:
  two devices that agree on profile and duty cycle get the same result, whatever their
  other fields hold.
\<close>

theorem calculate_power_consumption_formulas:
  assumes "0 \<le> sensing (power self)" "0 \<le> communication (power self)"
    and "0 \<le> processing (power self)" "0 \<le> sleep (power self)"
    and "0 \<le> t" "0 \<le> IoTSensor.duty_cycle self" "IoTSensor.duty_cycle self \<le> 1"
  shows "calculate_power_consumption self t ''sensing''
           = Inr (sensing (power self) * t * IoTSensor.duty_cycle self)
       \<and> calculate_power_consumption self t ''communication''
           = Inr (communication (power self) * t)
       \<and> calculate_power_consumption (self\<lparr>IoTSensor.duty_cycle := dc'\<rparr>) t ''communication''
           = calculate_power_consumption self t ''communication''
       \<and> calculate_power_consumption self t ''processing''
           = Inr (processing (power self) * t)
       \<and> calculate_power_consumption self t ''sleep''
           = Inr (sleep (power self) * t * (1 - IoTSensor.duty_cycle self))
       \<and> (power other = power self \<and> IoTSensor.duty_cycle other = IoTSensor.duty_cycle self
            \<longrightarrow> calculate_power_consumption other t kind
                = calculate_power_consumption self t kind)"
  by (simp add: calculate_power_consumption_def)

theorem calculate_power_consumption_formulas_witness:
  "calculate_power_consumption
      ((IoTSensor_init ''light_01'' ''LDR'' ''Living Room'')\<lparr>IoTSensor.duty_cycle := 0.5\<rparr>) 2 ''sensing''
     = Inr 0.5
   \<and> calculate_power_consumption
      ((IoTSensor_init ''light_01'' ''LDR'' ''Living Room'')\<lparr>IoTSensor.duty_cycle := 0.5\<rparr>) 2
      ''communication'' = Inr 24
   \<and> calculate_power_consumption
      ((IoTSensor_init ''light_01'' ''LDR'' ''Living Room'')\<lparr>IoTSensor.duty_cycle := 0.5\<rparr>) 2
      ''processing'' = Inr 0.6
   \<and> calculate_power_consumption
      ((IoTSensor_init ''light_01'' ''LDR'' ''Living Room'')\<lparr>IoTSensor.duty_cycle := 0.5\<rparr>) 2 ''sleep''
     = Inr 0.02"
  using calculate_power_consumption_formulas
    [of "(IoTSensor_init ''light_01'' ''LDR'' ''Living Room'')\<lparr>IoTSensor.duty_cycle := 0.5\<rparr>" 2]
  by (simp add: IoTSensor_init_def power_specs_def)

section \<open>Properties of the distance model\<close>

lemma transmission_power_eq:
  "calculate_transmission_power d
     = (if d \<le> 10 then 50 else min (50 * 10 powr ((3 * log 10 (d / 10)) / 10)) 200)"
  by (simp add: calculate_transmission_power_def Let_def)

lemma transmission_power_near: "d \<le> 10 \<Longrightarrow> calculate_transmission_power d = 50"
  by (simp add: transmission_power_eq)

lemma transmission_power_far: "10 < d \<Longrightarrow> 50 < calculate_transmission_power d"
  by (simp add: transmission_power_eq)

lemma distance_front_door: "calculate_distance ''Front Door'' = sqrt 34"
  by (simp add: calculate_distance_def sensor_locations_def gateway_position_def)

lemma distance_bathroom: "calculate_distance ''Bathroom'' = sqrt 180"
  by (simp add: calculate_distance_def sensor_locations_def gateway_position_def)

lemma distance_kitchen: "calculate_distance ''Kitchen'' = 10"
  by (simp add: calculate_distance_def sensor_locations_def gateway_position_def)

lemma sqrt_34_le: "sqrt 34 \<le> 6"
  by (rule real_le_lsqrt) simp_all

lemma sqrt_180_le: "sqrt 180 \<le> 14"
  by (rule real_le_lsqrt) simp_all

lemma sqrt_180_gt: "10 < sqrt 180"
  by (rule real_less_rsqrt) simp

text \<open>
  C3: for every distance \<open>d \<ge> 0\<close>, the transmission power is 50 mW when \<open>d \<le> 10\<close> and
  \<open>min (50 * 10 powr ((3 * log\<^sub>1\<^sub>0 (d / 10)) / 10)) 200\<close> otherwise; it never exceeds
  200 mW, and it is non-decreasing in \<open>d\<close> for \<open>d > 10\<close>.
\<close>

theorem transmission_power_law:
  assumes "0 \<le> d"
  shows "calculate_transmission_power d
           = (if d \<le> 10 then 50 else min (50 * 10 powr ((3 * log 10 (d / 10)) / 10)) 200)
       \<and> calculate_transmission_power d \<le> 200
       \<and> (10 < d \<and> d \<le> d' \<longrightarrow>
            calculate_transmission_power d \<le> calculate_transmission_power d')"
proof -
  have bound: "calculate_transmission_power d \<le> 200"
    by (simp add: transmission_power_eq)
  have mono: "calculate_transmission_power d \<le> calculate_transmission_power d'"
    if "10 < d" "d \<le> d'"
  proof -
    from that have "log 10 (d / 10) \<le> log 10 (d' / 10)"
      by (simp add: divide_right_mono)
    then have "10 powr ((3 * log 10 (d / 10)) / 10) \<le> 10 powr ((3 * log 10 (d' / 10)) / 10)"
      by simp
    with that show ?thesis
      by (simp add: transmission_power_eq min_le_iff_disj)
  qed
  show ?thesis using transmission_power_eq [of d] bound mono by blast
qed

theorem transmission_power_law_witness:
  "calculate_transmission_power (calculate_distance ''Kitchen'') = 50
   \<and> calculate_transmission_power 40 = min (50 * 10 powr ((3 * log 10 4) / 10)) 200
   \<and> calculate_transmission_power 40 \<le> 200
   \<and> calculate_transmission_power 40 \<le> calculate_transmission_power 50"
  using transmission_power_law [of 10] transmission_power_law [of 40 50]
  by (simp add: distance_kitchen)

section \<open>Properties of the batch scheduler\<close>

lemma total_locations_two_rooms: "total_locations two_rooms = {''Front Door'', ''Bathroom''}"
  by (simp add: total_locations_def two_rooms_def List.map_filter_simps)

lemma total_locations_located_then_bare: "total_locations located_then_bare = {''Kitchen''}"
  by (simp add: total_locations_def located_then_bare_def List.map_filter_simps)

lemma batch_power_raw_two_rooms: "batch_power_raw two_rooms (Some ''Bathroom'') = 1 / 6"
proof -
  have "(sqrt 34 + sqrt 180) / 2 \<le> 10"
    using sqrt_34_le sqrt_180_le by simp
  then have "calculate_transmission_power ((sqrt 34 + sqrt 180) / 2) = 50"
    by (rule transmission_power_near)
  then show ?thesis
    by (simp add: batch_power_raw_def total_locations_two_rooms truthy_def
        distance_front_door distance_bathroom Let_def)
      (simp add: two_rooms_def)
qed

lemma batch_power_as_specified_two_rooms: "1 / 6 < batch_power_as_specified two_rooms"
proof -
  have "50 < calculate_transmission_power (sqrt 180)"
    using sqrt_180_gt by (rule transmission_power_far)
  moreover have "calculate_transmission_power (sqrt 34) = 50"
    using sqrt_34_le by (intro transmission_power_near) simp
  ultimately show ?thesis
    by (simp add: batch_power_as_specified_def total_locations_two_rooms
        distance_front_door distance_bathroom Let_def)
      (simp add: two_rooms_def)
qed

lemma batch_power_raw_located_then_bare: "batch_power_raw located_then_bare None = 0.85"
  by (simp add: batch_power_raw_def truthy_def calculate_comm_power_def Let_def
      located_then_bare_def)

lemma batch_power_as_specified_located_then_bare:
  "batch_power_as_specified located_then_bare = 1 / 6"
  by (simp add: batch_power_as_specified_def total_locations_located_then_bare
      distance_kitchen transmission_power_near Let_def)
    (simp add: located_then_bare_def)

subsection \<open>Batch power at a flush\<close>

text \<open>
  C4, as stated: at a flush the batch power before the efficiency discount is the mean
  of the transmission powers of the distinct locations of the batch, times
  \<open>total_size / 1200\<close>, when the pending messages carry locations. The source differs
  twice. It averages the distances and takes the transmission power of the mean
  distance: for a message from the front door followed by one from the bathroom (4
  bytes, \<open>1 / 300\<close> s), the mean distance is below 10 m and the source charges
  \<open>50 / 300\<close>, less than the mean of the two powers gives. And it asks whether the
  message that triggers the flush carries a location: a message without location that
  follows one from the kitchen gets the single-message formula with the default of
  100 mW, 0.85 instead of \<open>50 / 300\<close>.
\<close>

theorem batch_power_raw_counterexample:
  "batch_power_raw two_rooms (Some ''Bathroom'') = 1 / 6
   \<and> batch_power_raw two_rooms (Some ''Bathroom'') < batch_power_as_specified two_rooms
   \<and> batch_power_raw located_then_bare None = 0.85
   \<and> batch_power_as_specified located_then_bare = 1 / 6"
  using batch_power_raw_two_rooms batch_power_as_specified_two_rooms
    batch_power_raw_located_then_bare batch_power_as_specified_located_then_bare
  by simp

text \<open>
  C4, amended: at every flush, the call returns the queuing power plus the share
  \<open>raw * efficiency * penalty / length\<close> of the batch power, where the power \<open>raw\<close>
  before the efficiency discount is, when the message that triggers the flush carries
  a non-empty location, the transmission power of the arithmetic mean of the distances
  of the distinct locations of the batch, times \<open>total_size / 1200\<close>; and, when that
  message carries no location, the single-message formula with the default
  transmission power of 100 mW at the batch transmission time \<open>total_size / 1200\<close>.
\<close>

theorem batch_power_before_discount:
  assumes "batch_due (batch_append self topic payload sz t loc) now"
  shows "fst (batch_message self topic payload sz t loc now draw)
           = (draw < 0.93,
              calculate_comm_power sz (t * 0.2) loc
              + batch_power_raw (message_batch (batch_append self topic payload sz t loc)) loc
                * max 0.5 (1 - real (length (message_batch
                                      (batch_append self topic payload sz t loc))) * 0.1)
                * (if draw < 0.93 then 1 else 1.5)
                / real (length (message_batch (batch_append self topic payload sz t loc))))
       \<and> (truthy loc \<longrightarrow>
            batch_power_raw (message_batch (batch_append self topic payload sz t loc)) loc
              = calculate_transmission_power
                  ((\<Sum>l\<in>total_locations (message_batch
                                (batch_append self topic payload sz t loc)).
                       calculate_distance l)
                   / real (card (total_locations
                                  (message_batch (batch_append self topic payload sz t loc)))))
                * (real_of_int (sum_list (map msg_size
                     (message_batch (batch_append self topic payload sz t loc)))) / 1200))
       \<and> (\<not> truthy loc \<longrightarrow>
            batch_power_raw (message_batch (batch_append self topic payload sz t loc)) loc
              = 100 * (real_of_int (sum_list (map msg_size
                     (message_batch (batch_append self topic payload sz t loc)))) / 1200)
                + 50 * ((real_of_int (sum_list (map msg_size
                     (message_batch (batch_append self topic payload sz t loc)))) / 1200) * 0.1)
                + 5 * 0.1)"
proof -
  let ?batch = "message_batch (batch_append self topic payload sz t loc)"
  have len: "max (int (length ?batch)) 1 = int (length ?batch)"
    by (simp add: batch_append_def)
  have res: "fst (batch_message self topic payload sz t loc now draw)
           = (draw < 0.93,
              calculate_comm_power sz (t * 0.2) loc
              + batch_power_raw ?batch loc
                * max 0.5 (1 - real (length ?batch) * 0.1)
                * (if draw < 0.93 then 1 else 1.5)
                / real (length ?batch))"
    using assms by (simp add: batch_message_def batch_flush_def Let_def len)
  have mem: "truthy loc \<Longrightarrow> the loc \<in> total_locations ?batch"
    by (auto simp add: truthy_def total_locations_def batch_append_def List.map_filter_def
        split: option.splits)
  have fin: "finite (total_locations ?batch)"
    by (simp add: total_locations_def)
  have located: "batch_power_raw ?batch loc
        = calculate_transmission_power
            ((\<Sum>l\<in>total_locations ?batch. calculate_distance l)
              / real (card (total_locations ?batch)))
          * (real_of_int (sum_list (map msg_size ?batch)) / 1200)" if "truthy loc"
  proof -
    from mem [OF that] fin have "0 < card (total_locations ?batch)"
      by (auto simp add: card_gt_0_iff)
    with that show ?thesis by (simp add: batch_power_raw_def Let_def)
  qed
  have fallback: "batch_power_raw ?batch loc
        = 100 * (real_of_int (sum_list (map msg_size ?batch)) / 1200)
          + 50 * ((real_of_int (sum_list (map msg_size ?batch)) / 1200) * 0.1) + 5 * 0.1"
    if "\<not> truthy loc"
    using that
    by (simp add: batch_power_raw_def calculate_comm_power_def truthy_def Let_def
        split: option.splits)
  show ?thesis using res located fallback by blast
qed

lemma front_door_pending_kitchen:
  "message_batch (batch_append front_door_pending ''home/kitchen'' ''{}'' 2 0.002
                    (Some ''Kitchen''))
     = [\<lparr>msg_topic = ''home/front'', msg_payload = ''{}'', msg_size = 2,
          msg_time = 0.002, msg_location = Some ''Front Door''\<rparr>,
        \<lparr>msg_topic = ''home/kitchen'', msg_payload = ''{}'', msg_size = 2,
          msg_time = 0.002, msg_location = Some ''Kitchen''\<rparr>]"
  by (simp add: batch_append_def front_door_pending_def MQTTProtocol_init_def)

theorem batch_power_before_discount_witness:
  "batch_due (batch_append front_door_pending ''home/kitchen'' ''{}'' 2 0.002
                (Some ''Kitchen'')) 1
   \<and> fst (batch_message front_door_pending ''home/kitchen'' ''{}'' 2 0.002
            (Some ''Kitchen'') 1 0.5) = (True, 883 / 1500)"
proof -
  have due: "batch_due (batch_append front_door_pending ''home/kitchen'' ''{}'' 2 0.002
                (Some ''Kitchen'')) 1"
    by (simp add: batch_due_def batch_append_def front_door_pending_def MQTTProtocol_init_def)
  have "(sqrt 34 + 10) / 2 \<le> 10"
    using sqrt_34_le by simp
  then have mean: "calculate_transmission_power ((sqrt 34 + 10) / 2) = 50"
    by (rule transmission_power_near)
  have queue: "calculate_comm_power 2 (0.002 * 0.2) (Some ''Kitchen'') = 0.522"
    by (simp add: calculate_comm_power_def distance_kitchen transmission_power_near)
  from batch_power_before_discount [OF due, of "0.5", unfolded front_door_pending_kitchen]
    mean queue
  have "fst (batch_message front_door_pending ''home/kitchen'' ''{}'' 2 0.002
            (Some ''Kitchen'') 1 0.5) = (True, 883 / 1500)"
    by (simp add: truthy_def total_locations_def List.map_filter_simps
        distance_front_door distance_kitchen)
  with due show ?thesis by simp
qed


subsection \<open>Queuing power\<close>

text \<open>
  What \<^verbatim>\<open>_batch_message\<close> charges for queuing: it passes 20% of the transmission time
  to the single-message formula \<open>P_tx * t + P_rx * (0.1 * t) + P_idle * 0.1\<close>. The
  idle term of that formula does not depend on the time, so the charge is 20% of the
  single-message power plus 0.4 mW, on every call; a flush adds its share of the batch
  power to it.
\<close>

lemma queuing_power_gap:
  "snd (fst (batch_message self topic payload sz t loc now draw))
     = 0.2 * calculate_comm_power sz t loc + 0.4
       + (if batch_due (batch_append self topic payload sz t loc) now
          then snd (fst (batch_flush (batch_append self topic payload sz t loc) loc 0 now draw))
          else 0)"
  by (simp add: batch_message_def batch_flush_def calculate_comm_power_def Let_def
      algebra_simps split: option.splits)

text \<open>
  C5: every message appended in batch mode is charged 20% of its single-message power
  \<open>P_tx * t + P_rx * (0.1 * t) + P_idle * 0.1\<close>, as the comment of the source has it
  (\<^verbatim>\<open>Minimum power cost for queuing the message (20% of normal transmission)\<close>).
  The source misses it by the unscaled idle term. Publishing the empty payload
  \<^verbatim>\<open>{}\<close> (2 bytes, 0.002 s) without location on a fresh channel, one second after
  its construction, queues the message and returns 0.542, where 20% of the
  single-message power 0.71 is 0.142.
\<close>

theorem queuing_power_divergence:
  "fst (publish_message (MQTTProtocol_init 0) ''home/temp'' ''{}'' 1 None 1 0.5)
     = (True, 0.542)
   \<and> calculate_comm_power 2 0.002 None = 0.71
   \<and> 0.2 * calculate_comm_power 2 0.002 None = 0.142"
  by (simp add: publish_message_def batch_message_def batch_append_def batch_due_def
      MQTTProtocol_init_def calculate_comm_power_def Let_def)

subsection \<open>The pending batch stays within its limit\<close>

lemma batch_message_params:
  "batch_size_limit (snd (batch_message s tp pl sz t loc now dr)) = batch_size_limit s
   \<and> batch_timeout (snd (batch_message s tp pl sz t loc now dr)) = batch_timeout s
   \<and> batch_mode_enabled (snd (batch_message s tp pl sz t loc now dr)) = batch_mode_enabled s"
  by (simp add: batch_message_def batch_flush_def batch_append_def Let_def)

lemma batch_message_length:
  assumes "int (length (message_batch s)) < batch_size_limit s"
  shows "int (length (message_batch (snd (batch_message s tp pl sz t loc now dr))))
           < batch_size_limit s"
  using assms
  by (auto simp add: batch_message_def batch_flush_def batch_append_def batch_due_def Let_def)

lemma publish_call_inv:
  assumes "batch_inv s0 s"
  shows "batch_inv s0 (snd (publish_call s c))"
  using assms batch_message_length [of s] batch_message_params [of s]
  by (simp add: batch_inv_def publish_call_def publish_message_def Let_def)

lemma publish_all_inv:
  assumes "batch_inv s0 s"
  shows "batch_inv s0 (publish_all s calls)"
  using assms
proof (induction calls arbitrary: s)
  case Nil
  then show ?case by (simp add: publish_all_def)
next
  case (Cons c calls)
  from Cons.prems have "batch_inv s0 (snd (publish_call s c))"
    by (rule publish_call_inv)
  then have "batch_inv s0 (publish_all (snd (publish_call s c)) calls)"
    by (rule Cons.IH)
  then show ?case by (simp add: publish_all_def)
qed

text \<open>
  C6: with batch mode enabled and a size limit of at least 1, start from an empty batch
  and make any sequence of publish calls. The batch parameters stay as they were, and
  whenever the next publish call fires a flush, the batch holds at most
  \<open>batch_size_limit\<close> messages at that instant, and the call returns with an empty
  batch and with \<open>last_batch_time\<close> set to the clock reading of the call, whatever the
  random draw that decides the delivery.
\<close>

theorem batch_flush_bounded:
  assumes "batch_mode_enabled s0" and "1 \<le> batch_size_limit s0" and "message_batch s0 = []"
  shows "batch_size_limit (publish_all s0 calls) = batch_size_limit s0
       \<and> (batch_due (batch_append (publish_all s0 calls) topic payload (int (length payload))
                      (real_of_int (int (length payload)) / 1000) loc) now
          \<longrightarrow> int (length (message_batch
                  (batch_append (publish_all s0 calls) topic payload (int (length payload))
                     (real_of_int (int (length payload)) / 1000) loc)))
                \<le> batch_size_limit s0
              \<and> message_batch (snd (publish_message (publish_all s0 calls) topic payload qos
                                      loc now draw)) = []
              \<and> last_batch_time (snd (publish_message (publish_all s0 calls) topic payload qos
                                      loc now draw)) = now)"
proof -
  from assms have "batch_inv s0 s0"
    by (simp add: batch_inv_def)
  then have "batch_inv s0 (publish_all s0 calls)"
    by (rule publish_all_inv)
  then show ?thesis
    by (simp add: batch_inv_def publish_message_def batch_message_def batch_flush_def
        batch_append_def Let_def)
qed

theorem batch_flush_bounded_witness:
  "batch_due (batch_append
       (publish_all ((MQTTProtocol_init 0)\<lparr>batch_size_limit := 2\<rparr>)
          [\<lparr>call_topic = ''home/temp'', call_payload = ''{}'', call_qos = 1,
            call_location = Some ''Kitchen'', call_time = 1, call_draw = 0.5\<rparr>])
       ''home/light'' ''{}'' 2 (2 / 1000) None) 2
   \<and> message_batch (snd (publish_message
       (publish_all ((MQTTProtocol_init 0)\<lparr>batch_size_limit := 2\<rparr>)
          [\<lparr>call_topic = ''home/temp'', call_payload = ''{}'', call_qos = 1,
            call_location = Some ''Kitchen'', call_time = 1, call_draw = 0.5\<rparr>])
       ''home/light'' ''{}'' 1 None 2 0.99)) = []
   \<and> last_batch_time (snd (publish_message
       (publish_all ((MQTTProtocol_init 0)\<lparr>batch_size_limit := 2\<rparr>)
          [\<lparr>call_topic = ''home/temp'', call_payload = ''{}'', call_qos = 1,
            call_location = Some ''Kitchen'', call_time = 1, call_draw = 0.5\<rparr>])
       ''home/light'' ''{}'' 1 None 2 0.99)) = 2"
proof -
  have due: "batch_due (batch_append
       (publish_all ((MQTTProtocol_init 0)\<lparr>batch_size_limit := 2\<rparr>)
          [\<lparr>call_topic = ''home/temp'', call_payload = ''{}'', call_qos = 1,
            call_location = Some ''Kitchen'', call_time = 1, call_draw = 0.5\<rparr>])
       ''home/light'' ''{}'' 2 (2 / 1000) None) 2"
    by (simp add: publish_all_def publish_call_def publish_message_def batch_message_def
        batch_append_def batch_due_def MQTTProtocol_init_def Let_def)
  from batch_flush_bounded [of "(MQTTProtocol_init 0)\<lparr>batch_size_limit := 2\<rparr>"
      "[\<lparr>call_topic = ''home/temp'', call_payload = ''{}'', call_qos = 1,
            call_location = Some ''Kitchen'', call_time = 1, call_draw = 0.5\<rparr>]"
      "''home/light''" "''{}''" None 2 1 "0.99"] due
  show ?thesis
    by (simp add: MQTTProtocol_init_def)
qed

subsection \<open>A queued message reports success\<close>

text \<open>
  C10: a publish call in batch mode after which the batch is still shorter than
  \<open>batch_size_limit\<close>, made no later than \<open>batch_timeout\<close> after the last flush,
  returns success together with the queuing power alone; the message is only appended
  to the batch, and the message count, the bytes sent and the retry count are as before
  the call.
\<close>

theorem publish_queued:
  assumes "batch_mode_enabled self"
    and "int (length (message_batch (batch_append self topic payload (int (length payload))
                 (real_of_int (int (length payload)) / 1000) loc))) < batch_size_limit self"
    and "now - last_batch_time self \<le> batch_timeout self"
  shows "fst (publish_message self topic payload qos loc now draw)
           = (True, calculate_comm_power (int (length payload))
                      (real_of_int (int (length payload)) / 1000 * 0.2) loc)
       \<and> message_count (snd (publish_message self topic payload qos loc now draw))
           = message_count self
       \<and> total_bytes_sent (snd (publish_message self topic payload qos loc now draw))
           = total_bytes_sent self
       \<and> retry_count (snd (publish_message self topic payload qos loc now draw))
           = retry_count self
       \<and> message_batch (snd (publish_message self topic payload qos loc now draw))
           = message_batch self @
             [\<lparr>msg_topic = topic, msg_payload = payload, msg_size = int (length payload),
               msg_time = real_of_int (int (length payload)) / 1000, msg_location = loc\<rparr>]"
  using assms
  by (simp add: publish_message_def batch_message_def batch_append_def batch_due_def Let_def)

theorem publish_queued_witness:
  "fst (publish_message (MQTTProtocol_init 0) ''home/temp'' ''{}'' 1 None 1 0.99)
     = (True, 0.542)
   \<and> message_count (snd (publish_message (MQTTProtocol_init 0) ''home/temp'' ''{}'' 1 None
                           1 0.99)) = 0
   \<and> total_bytes_sent (snd (publish_message (MQTTProtocol_init 0) ''home/temp'' ''{}'' 1 None
                           1 0.99)) = 0
   \<and> retry_count (snd (publish_message (MQTTProtocol_init 0) ''home/temp'' ''{}'' 1 None
                           1 0.99)) = 0"
  using publish_queued [of "MQTTProtocol_init 0" "''home/temp''" "''{}''" None 1 1 "0.99"]
  by (simp add: MQTTProtocol_init_def batch_append_def calculate_comm_power_def)

section \<open>Properties of the aggregation\<close>

lemma split_chr_nonempty: "split_chr c s \<noteq> []"
  by (induction s) (auto split: list.splits)

lemma split_chr_no_sep: "w \<in> set (split_chr c s) \<Longrightarrow> c \<notin> set w"
  by (induction s arbitrary: w) (auto split: list.splits if_splits)

lemma split_chr_plain: "c \<notin> set s \<Longrightarrow> split_chr c s = [s]"
  by (induction s) auto

lemma split_chr_append:
  "split_chr c (p @ c # k) = split_chr c p @ split_chr c k"
proof (induction p)
  case Nil
  show ?case by simp
next
  case (Cons x p)
  obtain w ws where "split_chr c p = w # ws"
    using split_chr_nonempty [of c p] by (cases "split_chr c p") auto
  with Cons show ?case by simp
qed

lemma sensor_type_of_no_sep: "CHR ''_'' \<notin> set (sensor_type_of sid)"
  using split_chr_no_sep [of "last (split_chr CHR ''_'' sid)" "CHR ''_''" sid]
  by (simp add: sensor_type_of_def split_chr_nonempty)

lemma sensor_type_of_aggregated:
  assumes "CHR ''_'' \<notin> set k"
  shows "sensor_type_of (''aggregated_'' @ k) = k"
proof -
  have "''aggregated_'' @ k = ''aggregated'' @ CHR ''_'' # k" by simp
  then have "split_chr CHR ''_'' (''aggregated_'' @ k)
               = split_chr CHR ''_'' ''aggregated'' @ split_chr CHR ''_'' k"
    by (simp only: split_chr_append)
  with assms show ?thesis
    by (simp add: sensor_type_of_def split_chr_plain)
qed

lemmas sensor_type_of_aggregated_chars = sensor_type_of_aggregated [simplified]

lemma grouped_inv_step:
  assumes "grouped_inv readings grouped"
  shows "grouped_inv (readings @ [r]) (group_reading grouped r)"
  using assms
  by (auto simp add: grouped_inv_def group_reading_def reading_type_def Let_def
      distinct_update update_conv' filter_empty_conv image_iff split: option.splits)

lemma grouped_inv_foldl:
  assumes "grouped_inv seen grouped"
  shows "grouped_inv (seen @ readings) (foldl group_reading grouped readings)"
  using assms
proof (induction readings arbitrary: seen grouped)
  case Nil
  then show ?case by simp
next
  case (Cons r readings)
  from Cons.prems have "grouped_inv (seen @ [r]) (group_reading grouped r)"
    by (rule grouped_inv_step)
  then have "grouped_inv ((seen @ [r]) @ readings)
               (foldl group_reading (group_reading grouped r) readings)"
    by (rule Cons.IH)
  then show ?case by simp
qed

lemma grouped_inv_all: "grouped_inv readings (foldl group_reading [] readings)"
  using grouped_inv_foldl [of "[]" "[]" readings] by (simp add: grouped_inv_def)

lemma concat_select:
  assumes "distinct (map fst al)"
  shows "concat (map (\<lambda>e. if fst e = k then f e else []) al)
           = (case map_of al k of None \<Rightarrow> [] | Some l \<Rightarrow> f (k, l))"
  using assms
proof (induction al)
  case Nil
  show ?case by simp
next
  case (Cons e al)
  show ?case
  proof (cases "fst e = k")
    case True
    with Cons.prems have "map_of al k = None"
      by (auto simp add: map_of_eq_None_iff)
    with Cons True show ?thesis by (cases e) (auto split: option.splits)
  next
    case False
    with Cons show ?thesis by (cases e) auto
  qed
qed

lemma aggregate_group_type:
  assumes "CHR ''_'' \<notin> set k" and "\<forall>r \<in> set l. reading_type r = k"
  shows "filter (\<lambda>r. reading_type r = k') (aggregate_group self now (k, l))
           = (if k = k' then aggregate_group self now (k, l) else [])"
  using assms
  by (auto simp add: aggregate_group_def Let_def reading_type_def
      sensor_type_of_aggregated_chars filter_empty_conv filter_id_conv)

lemma aggregate_data_filter:
  assumes "optimization_enabled self"
  shows "filter (\<lambda>r. reading_type r = k) (aggregate_data self now readings)
           = aggregate_group self now (k, filter (\<lambda>r. reading_type r = k) readings)"
proof -
  let ?G = "foldl group_reading [] readings"
  have inv: "grouped_inv readings ?G" by (rule grouped_inv_all)
  then have dist: "distinct (map fst ?G)" by (simp add: grouped_inv_def)
  have entry: "filter (\<lambda>r. reading_type r = k) (aggregate_group self now e)
                 = (if fst e = k then aggregate_group self now e else [])" if "e \<in> set ?G" for e
  proof -
    obtain k' l where e: "e = (k', l)" by (cases e)
    with that dist have "map_of ?G k' = Some l" by simp
    with inv have k': "k' \<in> reading_type ` set readings"
      and l: "l = filter (\<lambda>r. reading_type r = k') readings"
      by (auto simp add: grouped_inv_def split: if_splits)
    from k' have "CHR ''_'' \<notin> set k'"
      by (auto simp add: reading_type_def sensor_type_of_no_sep)
    moreover from l have "\<forall>r \<in> set l. reading_type r = k'" by simp
    ultimately show ?thesis using e by (simp add: aggregate_group_type)
  qed
  have "filter (\<lambda>r. reading_type r = k) (aggregate_data self now readings)
          = concat (map (\<lambda>e. filter (\<lambda>r. reading_type r = k) (aggregate_group self now e)) ?G)"
    using assms by (simp add: aggregate_data_def filter_concat comp_def)
  also have "\<dots> = concat (map (\<lambda>e. if fst e = k then aggregate_group self now e else []) ?G)"
    using entry by (simp cong: map_cong)
  also have "\<dots> = (case map_of ?G k of None \<Rightarrow> [] | Some l \<Rightarrow> aggregate_group self now (k, l))"
    using dist by (rule concat_select)
  also have "\<dots> = aggregate_group self now (k, filter (\<lambda>r. reading_type r = k) readings)"
  proof (cases "k \<in> reading_type ` set readings")
    case True
    with inv show ?thesis by (simp add: grouped_inv_def)
  next
    case False
    then have "filter (\<lambda>r. reading_type r = k) readings = []"
      by (auto simp add: filter_empty_conv)
    with False inv show ?thesis by (simp add: grouped_inv_def aggregate_group_def)
  qed
  finally show ?thesis .
qed

lemma aggregate_data_three:
  assumes "optimization_enabled self"
    and "reading_type r1 = k" "reading_type r2 = k" "reading_type r3 = k"
  shows "aggregate_data self now [r1, r2, r3]
           = [\<lparr>timestamp = now, sensor_id = ''aggregated_'' @ k,
               value = (value r1 + value r2 + value r3) / 3,
               unit = unit r1,
               power_consumed = (power_consumed r1 + power_consumed r2 + power_consumed r3)
                                  * aggregation_factor self\<rparr>]"
  using assms
  by (simp add: aggregate_data_def group_reading_def aggregate_group_def reading_type_def
      Let_def)

text \<open>
  C7: with aggregation enabled, \<open>aggregate_data\<close> groups the readings by the part of
  the sensor id after its last underscore. For every type \<open>k\<close>, the readings of type
  \<open>k\<close> in the output are: the group itself when it has one reading (or none); and
  when it has \<open>N > 1\<close> readings, exactly one synthetic reading, with id
  \<open>aggregated_\<close> followed by \<open>k\<close>, the arithmetic mean of the group's values as value,
  and the sum of the group's powers times \<open>aggregation_factor\<close> as power. In particular
  three readings of type \<open>temp\<close> with values 20, 22 and 24 and a factor of 0.7 become
  one reading of value 22 whose power is the sum of the three powers times 0.7.
\<close>

theorem aggregate_data_groups:
  assumes "optimization_enabled self"
  shows "filter (\<lambda>r. reading_type r = k) (aggregate_data self now readings)
           = (if length (filter (\<lambda>r. reading_type r = k) readings) > 1 then
                [\<lparr>timestamp = now,
                  sensor_id = ''aggregated_'' @ k,
                  value = sum_list (map value (filter (\<lambda>r. reading_type r = k) readings))
                            / real (length (filter (\<lambda>r. reading_type r = k) readings)),
                  unit = unit (hd (filter (\<lambda>r. reading_type r = k) readings)),
                  power_consumed =
                    sum_list (map power_consumed (filter (\<lambda>r. reading_type r = k) readings))
                      * aggregation_factor self\<rparr>]
              else filter (\<lambda>r. reading_type r = k) readings)
       \<and> (reading_type r1 = ''temp'' \<and> reading_type r2 = ''temp'' \<and> reading_type r3 = ''temp''
            \<and> value r1 = 20 \<and> value r2 = 22 \<and> value r3 = 24
            \<and> aggregation_factor self = 0.7
          \<longrightarrow> aggregate_data self now [r1, r2, r3]
                = [\<lparr>timestamp = now, sensor_id = ''aggregated_temp'', value = 22,
                    unit = unit r1,
                    power_consumed =
                      (power_consumed r1 + power_consumed r2 + power_consumed r3) * 0.7\<rparr>])"
proof -
  have groups: "filter (\<lambda>r. reading_type r = k) (aggregate_data self now readings)
           = (if length (filter (\<lambda>r. reading_type r = k) readings) > 1 then
                [\<lparr>timestamp = now,
                  sensor_id = ''aggregated_'' @ k,
                  value = sum_list (map value (filter (\<lambda>r. reading_type r = k) readings))
                            / real (length (filter (\<lambda>r. reading_type r = k) readings)),
                  unit = unit (hd (filter (\<lambda>r. reading_type r = k) readings)),
                  power_consumed =
                    sum_list (map power_consumed (filter (\<lambda>r. reading_type r = k) readings))
                      * aggregation_factor self\<rparr>]
              else filter (\<lambda>r. reading_type r = k) readings)"
    using aggregate_data_filter [OF assms, of k now readings]
    by (simp add: aggregate_group_def Let_def)
  have scenario: "aggregate_data self now [r1, r2, r3]
                = [\<lparr>timestamp = now, sensor_id = ''aggregated_temp'', value = 22,
                    unit = unit r1,
                    power_consumed =
                      (power_consumed r1 + power_consumed r2 + power_consumed r3) * 0.7\<rparr>]"
    if "reading_type r1 = ''temp''" "reading_type r2 = ''temp''" "reading_type r3 = ''temp''"
      "value r1 = 20" "value r2 = 22" "value r3 = 24" "aggregation_factor self = 0.7"
    using aggregate_data_three [OF assms that(1-3), of now] that(4-7) by simp
  show ?thesis using groups scenario by blast
qed

lemma reading_type_temp [simp]:
  "reading_type (temp_reading ''living_room_01'' v p) = ''temp''"
  "reading_type (temp_reading ''bedroom_01'' v p) = ''temp''"
  "reading_type (temp_reading ''kitchen_01'' v p) = ''temp''"
  by (simp_all add: reading_type_def temp_reading_def sensor_type_of_def)

lemma reading_type_light [simp]: "reading_type light_reading = ''light''"
  by (simp add: reading_type_def light_reading_def sensor_type_of_def)

theorem aggregate_data_groups_witness:
  "filter (\<lambda>r. reading_type r = ''temp'')
     (aggregate_data (EnergyOptimizer_init\<lparr>optimization_enabled := True\<rparr>) 9
        [temp_reading ''living_room_01'' 20 0.15, temp_reading ''bedroom_01'' 22 0.15,
         light_reading, temp_reading ''kitchen_01'' 24 0.15])
     = [\<lparr>timestamp = 9, sensor_id = ''aggregated_temp'', value = 22, unit = ''C'',
         power_consumed = 0.315\<rparr>]
   \<and> filter (\<lambda>r. reading_type r = ''light'')
     (aggregate_data (EnergyOptimizer_init\<lparr>optimization_enabled := True\<rparr>) 9
        [temp_reading ''living_room_01'' 20 0.15, temp_reading ''bedroom_01'' 22 0.15,
         light_reading, temp_reading ''kitchen_01'' 24 0.15])
     = [light_reading]
   \<and> aggregate_data (EnergyOptimizer_init\<lparr>optimization_enabled := True\<rparr>) 9
        [temp_reading ''living_room_01'' 20 0.15, temp_reading ''bedroom_01'' 22 0.15,
         temp_reading ''kitchen_01'' 24 0.15]
     = [\<lparr>timestamp = 9, sensor_id = ''aggregated_temp'', value = 22, unit = ''C'',
         power_consumed = 0.315\<rparr>]"
proof -
  have on: "optimization_enabled (EnergyOptimizer_init\<lparr>optimization_enabled := True\<rparr>)"
    by simp
  have factor: "aggregation_factor (EnergyOptimizer_init\<lparr>optimization_enabled := True\<rparr>) = 0.7"
    by (simp add: EnergyOptimizer_init_def)
  have fields: "value (temp_reading room v p) = v" "unit (temp_reading room v p) = ''C''"
    "power_consumed (temp_reading room v p) = p" for room v p
    by (simp_all add: temp_reading_def)
  from aggregate_data_groups [OF on, of "''temp''" 9
      "[temp_reading ''living_room_01'' 20 0.15, temp_reading ''bedroom_01'' 22 0.15,
        light_reading, temp_reading ''kitchen_01'' 24 0.15]"
      "temp_reading ''living_room_01'' 20 0.15" "temp_reading ''bedroom_01'' 22 0.15"
      "temp_reading ''kitchen_01'' 24 0.15"]
    aggregate_data_groups [OF on, of "''light''" 9
      "[temp_reading ''living_room_01'' 20 0.15, temp_reading ''bedroom_01'' 22 0.15,
        light_reading, temp_reading ''kitchen_01'' 24 0.15]"]
  show ?thesis
    by (simp add: factor fields)
qed

section \<open>Properties of the progressive sleep\<close>

lemma check_reading_flag:
  "fst (check_reading thr (a, m) r) = (a \<or> reading_active thr m r)"
  by (auto simp add: check_reading_def reading_active_def Let_def split: option.splits)

lemma check_reading_values:
  "snd (check_reading thr (a, m) r) = snd (check_reading thr (b, m) r)"
  by (simp add: check_reading_def Let_def)

lemma foldl_check_values:
  "snd (foldl (check_reading thr) (a, m) rs) = snd (foldl (check_reading thr) (b, m) rs)"
proof (induction rs arbitrary: a b m)
  case Nil
  show ?case by simp
next
  case (Cons r rs)
  obtain a' m' where one: "check_reading thr (a, m) r = (a', m')"
    by (cases "check_reading thr (a, m) r")
  obtain b' m'' where two: "check_reading thr (b, m) r = (b', m'')"
    by (cases "check_reading thr (b, m) r")
  from one two check_reading_values [of thr a m r b] have "m'' = m'" by simp
  with one two Cons.IH [of a' m' b'] show ?case by simp
qed

lemma foldl_check_flag:
  "fst (foldl (check_reading thr) (a, m) rs)
     = (a \<or> (\<exists>i<length rs.
              reading_active thr (snd (foldl (check_reading thr) (False, m) (take i rs)))
                (rs ! i)))"
proof (induction rs arbitrary: a m)
  case Nil
  show ?case by simp
next
  case (Cons r rs)
  obtain a' m' where one: "check_reading thr (a, m) r = (a', m')"
    by (cases "check_reading thr (a, m) r")
  from one check_reading_flag [of thr a m r] have a': "a' = (a \<or> reading_active thr m r)"
    by simp
  have later: "snd (foldl (check_reading thr) (False, m) (take (Suc i) (r # rs)))
                 = snd (foldl (check_reading thr) (False, m') (take i rs))" for i
  proof -
    obtain c where "check_reading thr (False, m) r = (c, m')"
      using one check_reading_values [of thr False m r a]
      by (cases "check_reading thr (False, m) r") simp
    then show ?thesis
      using foldl_check_values [of thr c m' "take i rs" False] by simp
  qed
  have "(\<exists>i<length (r # rs).
           reading_active thr (snd (foldl (check_reading thr) (False, m) (take i (r # rs))))
             ((r # rs) ! i))
        = (reading_active thr m r
           \<or> (\<exists>i<length rs.
                reading_active thr (snd (foldl (check_reading thr) (False, m') (take i rs)))
                  (rs ! i)))"
    (is "?L = (_ \<or> ?R)")
  proof
    assume ?L
    then obtain i where i: "i < length (r # rs)"
      "reading_active thr (snd (foldl (check_reading thr) (False, m) (take i (r # rs))))
             ((r # rs) ! i)" by blast
    show "reading_active thr m r \<or> ?R"
    proof (cases i)
      case 0
      with i show ?thesis by simp
    next
      case (Suc j)
      with i later [of j] have "j < length rs"
        "reading_active thr (snd (foldl (check_reading thr) (False, m') (take j rs))) (rs ! j)"
        by simp_all
      then show ?thesis by blast
    qed
  next
    assume "reading_active thr m r \<or> ?R"
    then show ?L
    proof
      assume "reading_active thr m r"
      then have "reading_active thr
          (snd (foldl (check_reading thr) (False, m) (take 0 (r # rs)))) ((r # rs) ! 0)"
        by simp
      then show ?L by blast
    next
      assume ?R
      then obtain j where j: "j < length rs"
        "reading_active thr (snd (foldl (check_reading thr) (False, m') (take j rs))) (rs ! j)"
        by blast
      with later [of j] have "Suc j < length (r # rs)"
        "reading_active thr
          (snd (foldl (check_reading thr) (False, m) (take (Suc j) (r # rs)))) ((r # rs) ! Suc j)"
        by simp_all
      then show ?L by blast
    qed
  qed
  with Cons.IH [of a' m'] one a' show ?case by auto
qed

lemma check_readings_flag:
  "fst (check_readings thr m rs)
     = (\<exists>i<length rs. reading_active thr (snd (check_readings thr m (take i rs))) (rs ! i))"
  using foldl_check_flag [of thr False m rs] by (simp add: check_readings_def)

lemma py_index_in_range:
  "0 \<le> i \<Longrightarrow> i < int (length xs) \<Longrightarrow> py_index xs i = Inr (xs ! nat i)"
  by (simp add: py_index_def)

lemma update_sleep_mode_active:
  assumes "progressive_sleep self"
    and "fst (check_readings (activity_threshold self) (last_sensor_values self) readings)"
    and "0 \<le> current_sleep_level self"
    and "current_sleep_level self \<le> int (length (sleep_levels self)) - 1"
  shows "\<exists>power_saved self' sensors'.
           update_sleep_mode self sensors readings = Inr (power_saved, self', sensors')
           \<and> sleep_levels self' = sleep_levels self
           \<and> current_sleep_level self' = 0 \<and> inactivity_counter self' = 0"
  using assms
  by (auto simp add: update_sleep_mode_def Let_def py_index_def)

lemma update_sleep_mode_range:
  assumes "0 \<le> current_sleep_level self"
    and "current_sleep_level self \<le> int (length (sleep_levels self)) - 1"
  shows "\<exists>power_saved self' sensors'.
           update_sleep_mode self sensors readings = Inr (power_saved, self', sensors')
           \<and> sleep_levels self' = sleep_levels self
           \<and> 0 \<le> current_sleep_level self'
           \<and> current_sleep_level self' \<le> int (length (sleep_levels self')) - 1"
  using assms
  by (auto simp add: update_sleep_mode_def Let_def py_index_def)

text \<open>
  C8: a call of \<open>update_sleep_mode\<close> on a sleep level index within
  \<open>[0, length sleep_levels - 1]\<close> returns (no \<open>IndexError\<close>) and leaves the index
  within that range, the list of levels being as before. With progressive sleep
  enabled, if some reading of the call is activity against the values stored when it
  is examined (a motion reading with a positive value, or another reading that differs
  from its stored value by more than the threshold, 5 percent by default), the call
  leaves the index at 0 and the inactivity counter at 0.
\<close>

theorem update_sleep_mode_index:
  assumes "0 \<le> current_sleep_level self"
    and "current_sleep_level self \<le> int (length (sleep_levels self)) - 1"
  shows "\<exists>power_saved self' sensors'.
           update_sleep_mode self sensors readings = Inr (power_saved, self', sensors')
           \<and> sleep_levels self' = sleep_levels self
           \<and> 0 \<le> current_sleep_level self'
           \<and> current_sleep_level self' \<le> int (length (sleep_levels self')) - 1
           \<and> (progressive_sleep self
                \<and> (\<exists>i<length readings.
                      reading_active (activity_threshold self)
                        (snd (check_readings (activity_threshold self)
                                (last_sensor_values self) (take i readings)))
                        (readings ! i))
               \<longrightarrow> current_sleep_level self' = 0 \<and> inactivity_counter self' = 0)"
proof (cases "progressive_sleep self
    \<and> fst (check_readings (activity_threshold self) (last_sensor_values self) readings)")
  case True
  with assms update_sleep_mode_active [of self readings sensors]
  obtain power_saved self' sensors' where
    "update_sleep_mode self sensors readings = Inr (power_saved, self', sensors')"
    "sleep_levels self' = sleep_levels self"
    "current_sleep_level self' = 0" "inactivity_counter self' = 0"
    by blast
  moreover from assms have "0 \<le> int (length (sleep_levels self)) - 1" by linarith
  ultimately show ?thesis by simp
next
  case False
  then have "\<not> (progressive_sleep self
                \<and> (\<exists>i<length readings.
                      reading_active (activity_threshold self)
                        (snd (check_readings (activity_threshold self)
                                (last_sensor_values self) (take i readings)))
                        (readings ! i)))"
    by (simp add: check_readings_flag)
  with update_sleep_mode_range [OF assms, of sensors readings] show ?thesis by blast
qed

theorem update_sleep_mode_index_witness:
  "\<exists>power_saved self' sensors'.
     update_sleep_mode sleeping_optimizer two_sensors
       [temp_reading ''living_room_01'' 25 0.15] = Inr (power_saved, self', sensors')
     \<and> current_sleep_level self' = 0 \<and> inactivity_counter self' = 0"
proof -
  have range: "0 \<le> current_sleep_level sleeping_optimizer"
    "current_sleep_level sleeping_optimizer
       \<le> int (length (sleep_levels sleeping_optimizer)) - 1"
    by (simp_all add: sleeping_optimizer_def enable_adaptive_duty_cycling_def
        EnergyOptimizer_init_def)
  have on: "progressive_sleep sleeping_optimizer"
    by (simp add: sleeping_optimizer_def enable_adaptive_duty_cycling_def)
  have "reading_active (activity_threshold sleeping_optimizer)
          (snd (check_readings (activity_threshold sleeping_optimizer)
                  (last_sensor_values sleeping_optimizer)
                  (take 0 [temp_reading ''living_room_01'' 25 0.15])))
          ([temp_reading ''living_room_01'' 25 0.15] ! 0)"
    by (simp add: sleeping_optimizer_def enable_adaptive_duty_cycling_def
        EnergyOptimizer_init_def check_readings_def reading_active_def temp_reading_def
        percent_change_def)
  then have active: "\<exists>i<length [temp_reading ''living_room_01'' 25 0.15].
      reading_active (activity_threshold sleeping_optimizer)
          (snd (check_readings (activity_threshold sleeping_optimizer)
                  (last_sensor_values sleeping_optimizer)
                  (take i [temp_reading ''living_room_01'' 25 0.15])))
          ([temp_reading ''living_room_01'' 25 0.15] ! i)"
    by (intro exI [of _ 0]) simp
  from update_sleep_mode_index [OF range, of two_sensors
      "[temp_reading ''living_room_01'' 25 0.15]"] on active
  show ?thesis by blast
qed

subsection \<open>Five quiet cycles\<close>

lemma quiet_step:
  assumes "progressive_sleep s"
    and "\<not> fst (check_readings (activity_threshold s) (last_sensor_values s) rs)"
    and "inactivity_counter s + 1 < sleep_level_timeout s"
  shows "\<exists>s'. update_sleep_mode s sn rs = Inr (0, s', sn)
           \<and> progressive_sleep s' \<and> current_sleep_level s' = current_sleep_level s
           \<and> inactivity_counter s' = inactivity_counter s + 1
           \<and> sleep_levels s' = sleep_levels s
           \<and> sleep_level_timeout s' = sleep_level_timeout s"
  using assms by (simp add: update_sleep_mode_def Let_def)

lemma quiet_step_advance:
  assumes "progressive_sleep s"
    and "\<not> fst (check_readings (activity_threshold s) (last_sensor_values s) rs)"
    and "sleep_level_timeout s \<le> inactivity_counter s + 1"
    and "current_sleep_level s = 0" and "2 \<le> length (sleep_levels s)"
  shows "\<exists>p s'. update_sleep_mode s sn rs
             = Inr (p, s', map (\<lambda>sensor. sensor\<lparr>IoTSensor.duty_cycle := sleep_levels s ! 1\<rparr>) sn)
           \<and> current_sleep_level s' = 1 \<and> inactivity_counter s' = 0"
  using assms by (simp add: update_sleep_mode_def Let_def py_index_def apply_duty_cycle_def)

lemma quiet_run_below:
  assumes "progressive_sleep s" and "quiet_cycles s sn cycles"
    and "inactivity_counter s + int (length cycles) < sleep_level_timeout s"
  shows "\<exists>s'. run_cycles s sn cycles = Inr (s', sn)
           \<and> progressive_sleep s' \<and> current_sleep_level s' = current_sleep_level s
           \<and> inactivity_counter s' = inactivity_counter s + int (length cycles)
           \<and> sleep_levels s' = sleep_levels s
           \<and> sleep_level_timeout s' = sleep_level_timeout s"
  using assms
proof (induction cycles arbitrary: s)
  case Nil
  then show ?case by simp
next
  case (Cons rs cycles)
  from Cons.prems have quiet:
    "\<not> fst (check_readings (activity_threshold s) (last_sensor_values s) rs)"
    by simp
  from Cons.prems have "inactivity_counter s + 1 < sleep_level_timeout s" by simp
  with Cons.prems(1) quiet obtain s1 where s1:
    "update_sleep_mode s sn rs = Inr (0, s1, sn)" "progressive_sleep s1"
    "current_sleep_level s1 = current_sleep_level s"
    "inactivity_counter s1 = inactivity_counter s + 1"
    "sleep_levels s1 = sleep_levels s" "sleep_level_timeout s1 = sleep_level_timeout s"
    using quiet_step [of s rs sn] by blast
  from Cons.prems s1 have "quiet_cycles s1 sn cycles"
    and "inactivity_counter s1 + int (length cycles) < sleep_level_timeout s1"
    by simp_all
  with s1(2) Cons.IH [of s1] obtain s' where
    "run_cycles s1 sn cycles = Inr (s', sn)" "progressive_sleep s'"
    "current_sleep_level s' = current_sleep_level s1"
    "inactivity_counter s' = inactivity_counter s1 + int (length cycles)"
    "sleep_levels s' = sleep_levels s1" "sleep_level_timeout s' = sleep_level_timeout s1"
    by blast
  with s1 show ?case by simp
qed

lemma run_cycles_append:
  "run_cycles s sn (xs @ ys)
     = (case run_cycles s sn xs of Inl e \<Rightarrow> Inl e | Inr (s', sn') \<Rightarrow> run_cycles s' sn' ys)"
  by (induction xs arbitrary: s sn) (auto split: sum.splits)

lemma quiet_cycles_append:
  "quiet_cycles s sn (xs @ ys)
     = (quiet_cycles s sn xs
        \<and> (case run_cycles s sn xs of Inl e \<Rightarrow> True | Inr (s', sn') \<Rightarrow> quiet_cycles s' sn' ys))"
  by (induction xs arbitrary: s sn) (auto split: sum.splits)

text \<open>
  C9: start at sleep level index 0 with the inactivity counter at 0, a timeout of 5
  cycles, progressive sleep enabled and a list of levels that has a level 1. Five
  consecutive calls of \<open>update_sleep_mode\<close> in none of which activity is detected end
  with the index at 1 and the counter back at 0, and every sensor has the duty cycle
  of level 1. The index moves once, in the fifth call: after each of the first four
  calls it is still 0, the counter counts the calls, and the sensors are untouched.
\<close>

theorem five_quiet_cycles:
  assumes "progressive_sleep self" and "current_sleep_level self = 0"
    and "inactivity_counter self = 0" and "sleep_level_timeout self = 5"
    and "2 \<le> length (sleep_levels self)"
    and "length cycles = 5" and "quiet_cycles self sensors cycles"
  shows "(\<exists>self'. run_cycles self sensors cycles
                    = Inr (self', map (\<lambda>sensor. sensor\<lparr>IoTSensor.duty_cycle :=
                                                     sleep_levels self ! 1\<rparr>) sensors)
                 \<and> current_sleep_level self' = 1 \<and> inactivity_counter self' = 0)
       \<and> (\<forall>n<5. \<exists>self'. run_cycles self sensors (take n cycles) = Inr (self', sensors)
                    \<and> current_sleep_level self' = 0 \<and> inactivity_counter self' = int n)"
proof -
  have before: "\<exists>s'. run_cycles self sensors (take n cycles) = Inr (s', sensors)
           \<and> progressive_sleep s' \<and> current_sleep_level s' = 0
           \<and> inactivity_counter s' = int n
           \<and> sleep_levels s' = sleep_levels self \<and> sleep_level_timeout s' = 5"
    if "n < 5" for n
  proof -
    from assms(7) have "quiet_cycles self sensors (take n cycles @ drop n cycles)" by simp
    then have "quiet_cycles self sensors (take n cycles)"
      by (simp only: quiet_cycles_append)
    moreover from that assms have
      "inactivity_counter self + int (length (take n cycles)) < sleep_level_timeout self"
      by simp
    ultimately show ?thesis
      using quiet_run_below [OF assms(1), of sensors "take n cycles"] assms that by auto
  qed
  from before [of 4] obtain s4 where s4:
    "run_cycles self sensors (take 4 cycles) = Inr (s4, sensors)" "progressive_sleep s4"
    "current_sleep_level s4 = 0" "inactivity_counter s4 = 4"
    "sleep_levels s4 = sleep_levels self" "sleep_level_timeout s4 = 5"
    by auto
  from assms(6) have split: "cycles = take 4 cycles @ [cycles ! 4]"
    by (simp add: take_Suc_conv_app_nth [symmetric])
  from assms(7) have "quiet_cycles self sensors (take 4 cycles @ [cycles ! 4])"
    using split by simp
  with s4(1) have
    "\<not> fst (check_readings (activity_threshold s4) (last_sensor_values s4) (cycles ! 4))"
    by (simp add: quiet_cycles_append)
  with s4 assms(5) obtain p s5 where s5:
    "update_sleep_mode s4 sensors (cycles ! 4)
       = Inr (p, s5, map (\<lambda>sensor. sensor\<lparr>IoTSensor.duty_cycle := sleep_levels s4 ! 1\<rparr>)
                         sensors)"
    "current_sleep_level s5 = 1" "inactivity_counter s5 = 0"
    using quiet_step_advance [of s4 "cycles ! 4" sensors] by auto
  have "run_cycles self sensors (take 4 cycles @ [cycles ! 4])
          = Inr (s5, map (\<lambda>sensor. sensor\<lparr>IoTSensor.duty_cycle := sleep_levels self ! 1\<rparr>)
                         sensors)"
    using s4 s5 by (simp add: run_cycles_append)
  with split have final: "run_cycles self sensors cycles
          = Inr (s5, map (\<lambda>sensor. sensor\<lparr>IoTSensor.duty_cycle := sleep_levels self ! 1\<rparr>)
                         sensors)"
    by simp
  from final s5 before show ?thesis by blast
qed

theorem five_quiet_cycles_witness:
  "quiet_cycles (enable_adaptive_duty_cycling EnergyOptimizer_init True) two_sensors
     calm_cycles
   \<and> (\<exists>self'. run_cycles (enable_adaptive_duty_cycling EnergyOptimizer_init True)
                  two_sensors calm_cycles
                = Inr (self', map (\<lambda>sensor. sensor\<lparr>IoTSensor.duty_cycle := 0.6\<rparr>) two_sensors)
              \<and> current_sleep_level self' = 1 \<and> inactivity_counter self' = 0)"
proof -
  let ?s = "enable_adaptive_duty_cycling EnergyOptimizer_init True"
  have start: "progressive_sleep ?s" "current_sleep_level ?s = 0"
    "inactivity_counter ?s = 0" "sleep_level_timeout ?s = 5"
    "2 \<le> length (sleep_levels ?s)" "sleep_levels ?s ! 1 = 0.6"
    by (simp_all add: enable_adaptive_duty_cycling_def EnergyOptimizer_init_def)
  have len: "length calm_cycles = 5"
    by (simp add: calm_cycles_def)
  have quiet: "quiet_cycles ?s two_sensors calm_cycles"
    by (simp add: calm_cycles_def enable_adaptive_duty_cycling_def EnergyOptimizer_init_def
        update_sleep_mode_def check_readings_def check_reading_def percent_change_def
        py_index_def temp_reading_def Let_def)
  from five_quiet_cycles [OF start(1-5) len quiet, unfolded start(6)] quiet
  show ?thesis by simp
qed

end
